theory Spec2Isabelle
  imports Complex_Main
begin

section \<open>Parametric Value-at-Risk of a fixed-weight portfolio\<close>

text \<open>
  The program is the notebook \<^verbatim>\<open>Portfolio_Management_W_Value_Risk\<close>: a straight line of
  pandas, NumPy and SciPy calls over a table of closing prices. Each library call is
  embedded as the function the library documents, each notebook variable as a
  definition of the same name.
\<close>

subsection \<open>Values of dtype float64\<close>

text \<open>
  A NumPy \<^verbatim>\<open>float64\<close> is a finite number, one of the two infinities, or NaN. pandas
  uses NaN as its marker for a missing entry, and none of the library calls of the
  notebook raises on a NaN or on an infinity: they propagate. The special values are
  therefore part of the model. Finite values are idealised as exact reals: rounding,
  overflow to infinity and the sign of zero (a zero divisor counts as \<open>+0\<close>) are not
  modelled.
\<close>

datatype float64 = Fin real | PInf | NInf | NaN

fun fneg :: "float64 \<Rightarrow> float64" where
  "fneg (Fin a) = Fin (- a)"
| "fneg PInf = NInf"
| "fneg NInf = PInf"
| "fneg NaN = NaN"

fun fadd :: "float64 \<Rightarrow> float64 \<Rightarrow> float64" where
  "fadd (Fin a) (Fin b) = Fin (a + b)"
| "fadd (Fin a) PInf = PInf"
| "fadd (Fin a) NInf = NInf"
| "fadd PInf (Fin b) = PInf"
| "fadd PInf PInf = PInf"
| "fadd PInf NInf = NaN"
| "fadd NInf (Fin b) = NInf"
| "fadd NInf PInf = NaN"
| "fadd NInf NInf = NInf"
| "fadd NaN y = NaN"
| "fadd x NaN = NaN"

definition fsub :: "float64 \<Rightarrow> float64 \<Rightarrow> float64" where
  "fsub x y = fadd x (fneg y)"

text \<open>The sign of a product or quotient with an infinity; \<open>inf * 0\<close> is NaN.\<close>

definition signed_inf :: "real \<Rightarrow> float64" where
  "signed_inf s = (if s = 0 then NaN else if 0 < s then PInf else NInf)"

fun fmul :: "float64 \<Rightarrow> float64 \<Rightarrow> float64" where
  "fmul (Fin a) (Fin b) = Fin (a * b)"
| "fmul (Fin a) PInf = signed_inf a"
| "fmul (Fin a) NInf = signed_inf (- a)"
| "fmul PInf (Fin b) = signed_inf b"
| "fmul PInf PInf = PInf"
| "fmul PInf NInf = NInf"
| "fmul NInf (Fin b) = signed_inf (- b)"
| "fmul NInf PInf = NInf"
| "fmul NInf NInf = PInf"
| "fmul NaN y = NaN"
| "fmul x NaN = NaN"

text \<open>
  Division of arrays never raises: a finite nonzero value over zero is an infinity,
  \<open>0 / 0\<close> and \<open>inf / inf\<close> are NaN, a finite value over an infinity is zero.
\<close>

fun fdiv :: "float64 \<Rightarrow> float64 \<Rightarrow> float64" where
  "fdiv (Fin a) (Fin b) = (if b = 0 then signed_inf a else Fin (a / b))"
| "fdiv (Fin a) PInf = Fin 0"
| "fdiv (Fin a) NInf = Fin 0"
| "fdiv PInf (Fin b) = (if 0 \<le> b then PInf else NInf)"
| "fdiv NInf (Fin b) = (if 0 \<le> b then NInf else PInf)"
| "fdiv PInf PInf = NaN"
| "fdiv PInf NInf = NaN"
| "fdiv NInf PInf = NaN"
| "fdiv NInf NInf = NaN"
| "fdiv NaN y = NaN"
| "fdiv x NaN = NaN"

text \<open>\<^verbatim>\<open>np.sqrt\<close>: NaN (with a warning, not an exception) below zero.\<close>

fun fsqrt :: "float64 \<Rightarrow> float64" where
  "fsqrt (Fin a) = (if a < 0 then NaN else Fin (sqrt a))"
| "fsqrt PInf = PInf"
| "fsqrt NInf = NaN"
| "fsqrt NaN = NaN"

text \<open>The comparison \<open><\<close>: false whenever an operand is NaN.\<close>

fun fless :: "float64 \<Rightarrow> float64 \<Rightarrow> bool" where
  "fless (Fin a) (Fin b) = (a < b)"
| "fless (Fin a) PInf = True"
| "fless NInf (Fin b) = True"
| "fless NInf PInf = True"
| "fless x y = False"

primrec fsum :: "float64 list \<Rightarrow> float64" where
  "fsum [] = Fin 0"
| "fsum (x # xs) = fadd x (fsum xs)"

subsection \<open>Return Statistics\<close>

text \<open>
  A column of a DataFrame is the list of its rows in date order; a DataFrame is the
  list of its columns, one per ticker, all of one length.
\<close>

type_synonym series = "float64 list"
type_synonym dataframe = "float64 list list"

text \<open>
  \<^verbatim>\<open>returns = data.pct_change()\<close>. With its defaults (\<^verbatim>\<open>periods=1, fill_method='pad'\<close>,
  the pandas 1.x the notebook ran on) the method is
  \<^verbatim>\<open>data = self.fillna(method='pad'); rs = data.div(data.shift(1)) - 1\<close>:
  every NaN is first replaced by the last entry above it that is not NaN (a leading
  NaN stays), then each row is divided by the row above it. The row above the first
  row is NaN.
\<close>

fun ffill :: "float64 \<Rightarrow> series \<Rightarrow> series" where
  "ffill prev [] = []"
| "ffill prev (x # xs) = (if x = NaN then prev # ffill prev xs else x # ffill x xs)"

definition pad :: "series \<Rightarrow> series" where
  "pad xs = ffill NaN xs"

definition shift :: "series \<Rightarrow> series" where
  "shift xs = (case xs of [] \<Rightarrow> [] | _ # _ \<Rightarrow> NaN # butlast xs)"

definition pct_change_col :: "series \<Rightarrow> series" where
  "pct_change_col xs =
     (let data = pad xs in map2 (\<lambda>a b. fsub (fdiv a b) (Fin 1)) data (shift data))"

definition pct_change :: "dataframe \<Rightarrow> dataframe" where
  "pct_change df = map pct_change_col df"

text \<open>
  \<^verbatim>\<open>mean_returns = returns.mean()\<close>: per column, with \<^verbatim>\<open>skipna=True\<close>: the sum of the
  entries that are not NaN over their count, NaN when there is none.
\<close>

definition mean_col :: "series \<Rightarrow> float64" where
  "mean_col xs =
     (let values = filter (\<lambda>x. x \<noteq> NaN) xs; count = length values
      in if 0 < count then fdiv (fsum values) (Fin (real count)) else NaN)"

definition mean_df :: "dataframe \<Rightarrow> series" where
  "mean_df df = map mean_col df"

text \<open>
  \<^verbatim>\<open>cov_matrix = returns.cov()\<close>: pairwise covariance of the columns with
  \<^verbatim>\<open>ddof=1\<close>. For each pair of columns only the rows where both entries are finite
  count (\<open>nobs\<close> of them); the entry is the sum of the products of the deviations from
  the two means over \<open>nobs - 1\<close>, and NaN when \<open>nobs\<close> is 0 or the divisor is 0.
\<close>

fun finite_rows :: "series \<Rightarrow> series \<Rightarrow> (real \<times> real) list" where
  "finite_rows (Fin a # xs) (Fin b # ys) = (a, b) # finite_rows xs ys"
| "finite_rows (x # xs) (y # ys) = finite_rows xs ys"
| "finite_rows xs ys = []"

definition cov_pair :: "series \<Rightarrow> series \<Rightarrow> float64" where
  "cov_pair xs ys =
     (let obs = finite_rows xs ys;
          nobs = length obs;
          meanx = sum_list (map fst obs) / real nobs;
          meany = sum_list (map snd obs) / real nobs;
          covxy = sum_list (map (\<lambda>(vx, vy). (vx - meanx) * (vy - meany)) obs);
          divisor = real nobs - 1
      in if nobs < 1 then NaN
         else if divisor \<noteq> 0 then Fin (covxy / divisor)
         else NaN)"

definition cov :: "dataframe \<Rightarrow> dataframe" where
  "cov df = map (\<lambda>x. map (\<lambda>y. cov_pair x y) df) df"

definition returns :: "dataframe \<Rightarrow> dataframe" where
  "returns data = pct_change data"

definition mean_returns :: "dataframe \<Rightarrow> series" where
  "mean_returns data = mean_df (returns data)"

definition cov_matrix :: "dataframe \<Rightarrow> dataframe" where
  "cov_matrix data = cov (returns data)"

subsection \<open>Portfolio Aggregator\<close>

text \<open>
  The two dot products are the only calls of the notebook that raise:
  \<^verbatim>\<open>Series.dot\<close> raises \<^verbatim>\<open>Exception("Dot product shape mismatch")\<close> and
  \<^verbatim>\<open>ndarray.dot\<close> raises \<^verbatim>\<open>ValueError\<close> (shapes not aligned) when the lengths differ.
\<close>

datatype error = DotShapeMismatch | ValueError

definition np_dot :: "series \<Rightarrow> series \<Rightarrow> float64" where
  "np_dot a b = fsum (map2 fmul a b)"

definition series_dot :: "series \<Rightarrow> series \<Rightarrow> error + float64" where
  "series_dot lvals rvals =
     (if length lvals \<noteq> length rvals then Inl DotShapeMismatch
      else Inr (np_dot lvals rvals))"

text \<open>
  A matrix is the list of its rows, all of one length as the rows of an array are;
  \<open>ncols\<close> is the second entry of its shape.
\<close>

definition ncols :: "dataframe \<Rightarrow> nat" where
  "ncols m = (case m of [] \<Rightarrow> 0 | r # _ \<Rightarrow> length r)"

definition ndarray_dot_matrix :: "series \<Rightarrow> dataframe \<Rightarrow> error + series" where
  "ndarray_dot_matrix a m =
     (if length a \<noteq> length m then Inl ValueError
      else Inr (map (\<lambda>j. np_dot a (map (\<lambda>row. row ! j) m)) [0..<ncols m]))"

definition ndarray_dot :: "series \<Rightarrow> series \<Rightarrow> error + float64" where
  "ndarray_dot a b =
     (if length a \<noteq> length b then Inl ValueError else Inr (np_dot a b))"

text \<open>\<^verbatim>\<open>weights.T.dot(cov_matrix).dot(weights)\<close>, the argument of the square root.\<close>

definition port_variance :: "series \<Rightarrow> dataframe \<Rightarrow> error + float64" where
  "port_variance weights covs =
     (case ndarray_dot_matrix weights covs of
        Inl e \<Rightarrow> Inl e
      | Inr wc \<Rightarrow> ndarray_dot wc weights)"

record portfolio =
  port_mean :: float64
  investment_mean :: float64
  port_stdev :: float64
  investment_stdev :: float64

text \<open>
  \<^verbatim>\<open>port_mean = mean_returns.dot(weights)\<close>,
  \<^verbatim>\<open>investment_mean = (1 + port_mean) * portfolio_value\<close>,
  \<^verbatim>\<open>port_stdev = np.sqrt(weights.T.dot(cov_matrix).dot(weights))\<close>,
  \<^verbatim>\<open>investment_stdev = portfolio_value * port_stdev\<close>.
\<close>

definition portfolio_aggregator ::
  "series \<Rightarrow> dataframe \<Rightarrow> series \<Rightarrow> float64 \<Rightarrow> error + portfolio" where
  "portfolio_aggregator means covs weights portfolio_value =
     (case series_dot means weights of
        Inl e \<Rightarrow> Inl e
      | Inr pm \<Rightarrow>
          (case port_variance weights covs of
             Inl e \<Rightarrow> Inl e
           | Inr variance \<Rightarrow>
               Inr \<lparr>port_mean = pm,
                    investment_mean = fmul (fadd (Fin 1) pm) portfolio_value,
                    port_stdev = fsqrt variance,
                    investment_stdev = fmul portfolio_value (fsqrt variance)\<rparr>))"

subsection \<open>VaR Estimator\<close>

text \<open>
  \<^verbatim>\<open>percent_point = norm.ppf(confidence, investment_mean, investment_stdev)\<close>.
  SciPy's \<^verbatim>\<open>rv_continuous.ppf(q, loc, scale)\<close> never raises on numbers. It fills
  the output with NaN, then stores the lower end of the support (\<open>-inf * scale + loc\<close>)
  where \<open>q = 0\<close>, the upper end where \<open>q = 1\<close>, and \<^verbatim>\<open>_ppf(q) * scale + loc\<close> where
  \<open>0 < q < 1\<close>, each only where \<open>scale > 0\<close> and \<open>loc\<close> is not NaN. For the normal
  distribution \<^verbatim>\<open>_ppf\<close> is \<^verbatim>\<open>scipy.special.ndtri\<close>, the inverse of the standard normal
  distribution function, a compiled special function: the model takes it as the
  parameter \<open>ndtri\<close>.
\<close>

definition norm_ppf :: "(real \<Rightarrow> real) \<Rightarrow> float64 \<Rightarrow> float64 \<Rightarrow> float64 \<Rightarrow> float64" where
  "norm_ppf ndtri q loc scale =
     (let cond0 = (fless (Fin 0) scale \<and> loc \<noteq> NaN)
      in case q of
           Fin a \<Rightarrow>
             if cond0 \<and> 0 < a \<and> a < 1 then fadd (fmul (Fin (ndtri a)) scale) loc
             else if cond0 \<and> a = 0 then fadd (fmul NInf scale) loc
             else if cond0 \<and> a = 1 then fadd (fmul PInf scale) loc
             else NaN
         | _ \<Rightarrow> NaN)"

definition percent_point :: "(real \<Rightarrow> real) \<Rightarrow> float64 \<Rightarrow> float64 \<Rightarrow> float64 \<Rightarrow> float64" where
  "percent_point ndtri confidence inv_mean inv_stdev =
     norm_ppf ndtri confidence inv_mean inv_stdev"

text \<open>\<^verbatim>\<open>value_at_risk = portfolio_value - percent_point\<close>.\<close>

definition value_at_risk ::
  "(real \<Rightarrow> real) \<Rightarrow> float64 \<Rightarrow> float64 \<Rightarrow> float64 \<Rightarrow> float64 \<Rightarrow> float64" where
  "value_at_risk ndtri portfolio_value confidence inv_mean inv_stdev =
     fsub portfolio_value (percent_point ndtri confidence inv_mean inv_stdev)"

text \<open>
  What the theorems ask of \<open>ndtri\<close>: it is the quantile function of a distribution
  function \<open>cdf\<close>, strictly increasing as the standard normal one is. The normal
  distribution function itself is an integral with no closed form; the theorems hold
  for every such pair, the standard normal one among them.
\<close>

definition quantile_function :: "(real \<Rightarrow> real) \<Rightarrow> (real \<Rightarrow> real) \<Rightarrow> bool" where
  "quantile_function cdf q \<longleftrightarrow>
     strict_mono cdf \<and> (\<forall>p. 0 < p \<and> p < 1 \<longrightarrow> cdf (q p) = p)"

text \<open>
  A pair in closed form, for the evaluated examples: the logistic distribution
  function and its inverse. At \<open>p = 1/2\<close> the inverse is 0, as \<open>ndtri\<close> is.
\<close>

definition logistic_cdf :: "real \<Rightarrow> real" where
  "logistic_cdf x = 1 / (1 + exp (- x))"

definition logit :: "real \<Rightarrow> real" where
  "logit p = ln (p / (1 - p))"

subsection \<open>Horizon Scaler\<close>

text \<open>
  \<^verbatim>\<open>value_at_risks = value_at_risk * np.sqrt(range(1, 31))\<close>: the square roots of the
  days 1 to 30, each multiplied by the one-day figure.
\<close>

definition value_at_risks :: "float64 \<Rightarrow> float64 list" where
  "value_at_risks var1 =
     map (\<lambda>d. fmul var1 (fsqrt (Fin (real d)))) [1..<31]"

subsection \<open>The notebook\<close>

text \<open>
  The cells in order, from the price table to the plotted sequence. The statistics
  never raise, so it makes no difference that the notebook takes the covariance after
  the first dot product; the dot products fail in the notebook's order.
\<close>

definition notebook ::
  "(real \<Rightarrow> real) \<Rightarrow> dataframe \<Rightarrow> series \<Rightarrow> float64 \<Rightarrow> float64 \<Rightarrow>
   error + float64 \<times> float64 list" where
  "notebook ndtri data weights portfolio_value confidence =
     (case portfolio_aggregator (mean_returns data) (cov_matrix data) weights portfolio_value of
        Inl e \<Rightarrow> Inl e
      | Inr p \<Rightarrow>
          (let var = value_at_risk ndtri portfolio_value confidence
                       (investment_mean p) (investment_stdev p)
           in Inr (var, value_at_risks var)))"

subsection \<open>The notions the statements are written in\<close>


definition quadratic_form :: "real list \<Rightarrow> real list list \<Rightarrow> real" where
  "quadratic_form w s = (\<Sum>i<length w. \<Sum>j<length w. w ! i * s ! i ! j * w ! j)"

definition positive_semidefinite :: "real list list \<Rightarrow> bool" where
  "positive_semidefinite s \<longleftrightarrow> (\<forall>x. length x = length s \<longrightarrow> 0 \<le> quadratic_form x s)"

text \<open>
  The simple return of period \<open>t \<ge> 1\<close> of a price column, the arithmetic mean of
  the returns of a column of \<open>n\<close> prices (there are \<open>n - 1\<close> of them), and the
  sample covariance of the returns of two columns, with the number of returns less
  one as its denominator.
\<close>

definition simple_return :: "real list \<Rightarrow> nat \<Rightarrow> real" where
  "simple_return p t = p ! t / p ! (t - 1) - 1"

definition mean_return :: "real list \<Rightarrow> real" where
  "mean_return p = (\<Sum>t = 1..<length p. simple_return p t) / real (length p - 1)"

definition sample_covariance :: "real list \<Rightarrow> real list \<Rightarrow> real" where
  "sample_covariance p q =
     (\<Sum>t = 1..<length p.
        (simple_return p t - mean_return p) * (simple_return q t - mean_return q))
     / (real (length p - 1) - 1)"

text \<open>
  A column with missing entries, each entry an observed number or nothing, and the
  float column it stands for; the observed entries of a column; the rows of two
  columns where both are observed; and the sample covariance of a list of such rows.
\<close>

fun missing_as_nan :: "real option \<Rightarrow> float64" where
  "missing_as_nan None = NaN"
| "missing_as_nan (Some v) = Fin v"

fun observed :: "real option list \<Rightarrow> real list" where
  "observed [] = []"
| "observed (None # c) = observed c"
| "observed (Some v # c) = v # observed c"

fun complete_rows :: "real option list \<Rightarrow> real option list \<Rightarrow> (real \<times> real) list" where
  "complete_rows (Some a # c) (Some b # d) = (a, b) # complete_rows c d"
| "complete_rows (x # c) (y # d) = complete_rows c d"
| "complete_rows c d = []"

definition pairs_covariance :: "(real \<times> real) list \<Rightarrow> real" where
  "pairs_covariance rows =
     (let n = real (length rows);
          ma = sum_list (map fst rows) / n;
          mb = sum_list (map snd rows) / n
      in sum_list (map (\<lambda>(a, b). (a - ma) * (b - mb)) rows) / (n - 1))"

section \<open>Properties\<close>

subsection \<open>Auxiliary facts\<close>

text \<open>The logistic pair is a distribution function with its quantile function.\<close>

lemma logistic_quantile: "quantile_function logistic_cdf logit"
proof -
  have sm: "strict_mono logistic_cdf"
  proof (rule strict_monoI)
    fix x y :: real
    assume "x < y"
    then have "exp (- y) < exp (- x)" by simp
    then have "1 + exp (- y) < 1 + exp (- x)" by simp
    moreover have "0 < 1 + exp (- y)" by (simp add: add_pos_pos)
    ultimately have "1 / (1 + exp (- x)) < 1 / (1 + exp (- y))"
      by (simp add: frac_less2)
    then show "logistic_cdf x < logistic_cdf y" by (simp add: logistic_cdf_def)
  qed
  have inv: "logistic_cdf (logit p) = p" if "0 < p" "p < 1" for p
  proof -
    have pos: "0 < p / (1 - p)" using that by simp
    have "exp (- ln (p / (1 - p))) = (1 - p) / p"
      using pos by (simp add: exp_minus inverse_eq_divide)
    then have "logistic_cdf (logit p) = 1 / (1 + (1 - p) / p)"
      by (simp add: logistic_cdf_def logit_def)
    also have "\<dots> = p" using that by (simp add: field_simps)
    finally show ?thesis .
  qed
  show ?thesis unfolding quantile_function_def using sm inv by blast
qed

lemma logit_half: "logit (1 / 2) = 0"
  by (simp add: logit_def)

text \<open>On finite entries the float sums and dot products are the real ones.\<close>

lemma fsum_Fin: "fsum (map Fin xs) = Fin (sum_list xs)"
  by (induction xs) simp_all

lemma np_dot_Fin_sum_list:
  "length a = length b \<Longrightarrow> np_dot (map Fin a) (map Fin b) = Fin (sum_list (map2 (*) a b))"
  unfolding np_dot_def by (induction a b rule: list_induct2) simp_all

lemma sum_list_map2_nth:
  "length a = length b \<Longrightarrow> sum_list (map2 (*) a b) = (\<Sum>i<length a. a ! i * b ! i :: real)"
proof -
  assume len: "length a = length b"
  have "sum_list (map2 (*) a b) = (\<Sum>i = 0..<length (map2 (*) a b). map2 (*) a b ! i)"
    by (rule sum_list_sum_nth)
  also have "\<dots> = (\<Sum>i = 0..<length a. a ! i * b ! i)"
    using len by (intro sum.cong) simp_all
  finally show ?thesis by (simp add: atLeast0LessThan)
qed

lemma np_dot_Fin:
  "length a = length b \<Longrightarrow> np_dot (map Fin a) (map Fin b) = Fin (\<Sum>i<length a. a ! i * b ! i)"
  by (simp add: np_dot_Fin_sum_list sum_list_map2_nth)


lemma ncols_square:
  assumes "length s = n" and "\<forall>row\<in>set s. length row = n"
  shows "ncols (map (map Fin) s) = n"
  using assms by (cases s) (simp_all add: ncols_def)

lemma column_Fin:
  assumes "\<forall>row\<in>set s. length row = n" and "j < n"
  shows "map (\<lambda>row. row ! j) (map (map Fin) s) = map Fin (map (\<lambda>row. row ! j) s)"
  using assms by simp

lemma ndarray_dot_matrix_Fin:
  assumes "length w = n" and "length s = n" and "\<forall>row\<in>set s. length row = n"
  shows "ndarray_dot_matrix (map Fin w) (map (map Fin) s) =
         Inr (map Fin (map (\<lambda>j. \<Sum>i<n. w ! i * s ! i ! j) [0..<n]))"
proof -
  have col: "np_dot (map Fin w) (map (\<lambda>row. row ! j) (map (map Fin) s)) =
             Fin (\<Sum>i<n. w ! i * s ! i ! j)" if "j < n" for j
  proof -
    have "np_dot (map Fin w) (map Fin (map (\<lambda>row. row ! j) s)) =
          Fin (\<Sum>i<length w. w ! i * map (\<lambda>row. row ! j) s ! i)"
      using assms(1,2) by (intro np_dot_Fin) simp
    also have "(\<Sum>i<length w. w ! i * map (\<lambda>row. row ! j) s ! i) = (\<Sum>i<n. w ! i * s ! i ! j)"
      using assms(1,2) by (intro sum.cong) simp_all
    finally show ?thesis by (simp only: column_Fin [OF assms(3) that])
  qed
  have eq: "map (\<lambda>j. np_dot (map Fin w) (map (\<lambda>row. row ! j) (map (map Fin) s))) [0..<n] =
        map (\<lambda>j. Fin (\<Sum>i<n. w ! i * s ! i ! j)) [0..<n]"
  proof (rule map_cong)
    show "[0..<n] = [0..<n]" by (rule refl)
  next
    fix j assume "j \<in> set [0..<n]"
    then have "j < n" by simp
    then show "np_dot (map Fin w) (map (\<lambda>row. row ! j) (map (map Fin) s)) =
               Fin (\<Sum>i<n. w ! i * s ! i ! j)" by (rule col)
  qed
  have len: "length (map Fin w) = length (map (map Fin) s)"
    using assms(1,2) by simp
  show ?thesis
    unfolding ndarray_dot_matrix_def ncols_square [OF assms(2,3)] eq
    using len by (simp add: comp_def)
qed

lemma port_variance_Fin:
  assumes "length w = n" and "length s = n" and "\<forall>row\<in>set s. length row = n"
  shows "port_variance (map Fin w) (map (map Fin) s) = Inr (Fin (quadratic_form w s))"
proof -
  let ?c = "\<lambda>j. \<Sum>i<n. w ! i * s ! i ! j"
  have "ndarray_dot (map Fin (map ?c [0..<n])) (map Fin w) =
        Inr (Fin (\<Sum>j<length (map ?c [0..<n]). map ?c [0..<n] ! j * w ! j))"
    unfolding ndarray_dot_def using assms(1) by (subst np_dot_Fin) simp_all
  also have "(\<Sum>j<length (map ?c [0..<n]). map ?c [0..<n] ! j * w ! j) =
             (\<Sum>j<n. \<Sum>i<n. w ! i * s ! i ! j * w ! j)"
    by (intro sum.cong) (simp_all add: sum_distrib_right)
  also have "\<dots> = (\<Sum>i<n. \<Sum>j<n. w ! i * s ! i ! j * w ! j)"
    by (rule sum.swap)
  finally show ?thesis
    using assms(1) by (simp add: port_variance_def ndarray_dot_matrix_Fin [OF assms] quadratic_form_def)
qed

text \<open>
  In exact arithmetic the variance of a positive semi-definite matrix is the
  quadratic form, which is not negative. The float64 value the code computes is this
  number with every product and sum rounded, and rounding can take a form at or near
  zero below zero: the sign of the rounded value is not decided by this fact.
\<close>

lemma port_variance_positive_semidefinite:
  assumes "length w = n" and "length s = n" and "\<forall>row\<in>set s. length row = n"
    and "positive_semidefinite s"
  shows "port_variance (map Fin w) (map (map Fin) s) = Inr (Fin (quadratic_form w s)) \<and>
         0 \<le> quadratic_form w s"
proof -
  have "port_variance (map Fin w) (map (map Fin) s) = Inr (Fin (quadratic_form w s))"
    using assms(1-3) by (rule port_variance_Fin)
  moreover have "0 \<le> quadratic_form w s"
    using assms(1,2,4) by (simp add: positive_semidefinite_def)
  ultimately show ?thesis by simp
qed

text \<open>Return statistics of a column of finite, nonzero prices.\<close>

lemma ffill_Fin: "ffill prev (map Fin c) = map Fin c"
  by (induction c arbitrary: prev) simp_all

lemma length_ffill: "length (ffill prev xs) = length xs"
  by (induction xs arbitrary: prev) simp_all

lemma length_shift: "length (shift xs) = length xs"
  by (cases xs) (simp_all add: shift_def)

lemma length_pct_change_col: "length (pct_change_col xs) = length xs"
  by (simp add: pct_change_col_def pad_def Let_def length_ffill length_shift)

lemma shift_nth:
  assumes "0 < t" and "t < length xs"
  shows "shift xs ! t = xs ! (t - 1)"
proof -
  from assms obtain y ys where xs: "xs = y # ys" by (cases xs) auto
  have "shift xs ! t = butlast xs ! (t - 1)"
    using assms(1) by (simp add: shift_def xs nth_Cons')
  also have "\<dots> = xs ! (t - 1)"
    using assms by (intro nth_butlast) simp
  finally show ?thesis .
qed

lemma shift_first: "xs \<noteq> [] \<Longrightarrow> shift xs ! 0 = NaN"
  by (cases xs) (simp_all add: shift_def)

lemma fdiv_NaN_right: "fdiv x NaN = NaN"
  by (cases x) simp_all

lemma fsub_NaN_left: "fsub NaN y = NaN"
  by (simp add: fsub_def)

lemma fsub_Fin: "fsub (Fin a) (Fin b) = Fin (a - b)"
  by (simp add: fsub_def)

lemma pct_change_col_nth:
  assumes "t < length xs"
  shows "pct_change_col xs ! t = fsub (fdiv (pad xs ! t) (shift (pad xs) ! t)) (Fin 1)"
  using assms by (simp add: pct_change_col_def Let_def pad_def length_ffill length_shift)

lemma pct_change_col_Fin:
  assumes "c \<noteq> []" and "\<forall>x\<in>set c. x \<noteq> 0"
  shows "pct_change_col (map Fin c) =
         NaN # map (\<lambda>t. Fin (simple_return c t)) [1..<length c]"
proof (rule nth_equalityI)
  show "length (pct_change_col (map Fin c)) =
        length (NaN # map (\<lambda>t. Fin (simple_return c t)) [1..<length c])"
  proof -
    have "0 < length c" using assms(1) by simp
    then have "length c = Suc (length c - 1)" by arith
    then show ?thesis by (simp add: length_pct_change_col)
  qed
next
  fix t assume "t < length (pct_change_col (map Fin c))"
  then have t: "t < length c" by (simp add: length_pct_change_col)
  have padc: "pad (map Fin c) = map Fin c" by (simp add: pad_def ffill_Fin)
  show "pct_change_col (map Fin c) ! t =
        (NaN # map (\<lambda>t. Fin (simple_return c t)) [1..<length c]) ! t"
  proof (cases "t = 0")
    case True
    have "pct_change_col (map Fin c) ! 0 = NaN"
      using assms(1) t True
      by (simp add: pct_change_col_nth padc shift_first fdiv_NaN_right fsub_NaN_left)
    then show ?thesis using True by simp
  next
    case False
    then have pos: "0 < t" by simp
    have prev: "c ! (t - 1) \<noteq> 0"
      using assms(2) t by (simp add: less_imp_diff_less)
    have "shift (map Fin c) ! t = Fin (c ! (t - 1))"
      using pos t by (simp add: shift_nth less_imp_diff_less)
    then have "pct_change_col (map Fin c) ! t = Fin (simple_return c t)"
      using t prev by (simp add: pct_change_col_nth padc fsub_Fin simple_return_def)
    moreover have "[1..<length c] ! (t - 1) = t"
      using pos t by (subst nth_upt) simp_all
    then have "(NaN # map (\<lambda>t. Fin (simple_return c t)) [1..<length c]) ! t =
                   Fin (simple_return c t)"
      using pos t by (simp add: nth_Cons')
    ultimately show ?thesis by simp
  qed
qed
lemma mean_col_Fin:
  assumes "rs \<noteq> []"
  shows "mean_col (NaN # map Fin rs) = Fin (sum_list rs / real (length rs))"
proof -
  have "filter (\<lambda>x. x \<noteq> NaN) (NaN # map Fin rs) = map Fin rs"
    by (simp add: filter_map comp_def)
  then show ?thesis
    using assms by (simp add: mean_col_def fsum_Fin)
qed

lemma finite_rows_Fin:
  "length a = length b \<Longrightarrow> finite_rows (map Fin a) (map Fin b) = zip a b"
  by (induction a b rule: list_induct2) simp_all

lemma cov_pair_Fin:
  assumes "length a = length b" and "a \<noteq> []"
  shows "cov_pair (NaN # map Fin a) (NaN # map Fin b) =
         (if length a = 1 then NaN
          else Fin (sum_list (map (\<lambda>(x, y). (x - sum_list a / real (length a)) *
                                           (y - sum_list b / real (length a))) (zip a b))
                    / (real (length a) - 1)))"
proof -
  have rows: "finite_rows (NaN # map Fin a) (NaN # map Fin b) = zip a b"
    using assms(1) by (simp add: finite_rows_Fin)
  have len: "0 < length a" using assms(2) by simp
  show ?thesis
    unfolding cov_pair_def rows using assms(1) len by (auto simp add: Let_def)
qed

lemma sum_list_upt: "sum_list (map f [m..<n]) = (\<Sum>t = m..<n. f t :: real)"
  by (simp add: interv_sum_list_conv_sum_set_nat)

lemma mean_col_returns:
  assumes "2 \<le> length c"
  shows "mean_col (NaN # map (\<lambda>t. Fin (simple_return c t)) [1..<length c]) =
         Fin (mean_return c)"
proof -
  let ?rs = "map (simple_return c) [1..<length c]"
  have ne: "?rs \<noteq> []" using assms by auto
  have "map (\<lambda>t. Fin (simple_return c t)) [1..<length c] = map Fin ?rs" by simp
  then have "mean_col (NaN # map (\<lambda>t. Fin (simple_return c t)) [1..<length c]) =
        Fin (sum_list ?rs / real (length ?rs))"
    using mean_col_Fin [OF ne] by (simp only:)
  also have "sum_list ?rs / real (length ?rs) = mean_return c"
    by (simp add: mean_return_def sum_list_upt)
  finally show ?thesis .
qed

lemma cov_pair_returns:
  assumes "length p = n" and "length q = n" and "2 \<le> n"
  shows "cov_pair (NaN # map (\<lambda>t. Fin (simple_return p t)) [1..<n])
                  (NaN # map (\<lambda>t. Fin (simple_return q t)) [1..<n]) =
         (if n = 2 then NaN else Fin (sample_covariance p q))"
proof -
  let ?a = "map (simple_return p) [1..<n]"
  let ?b = "map (simple_return q) [1..<n]"
  have ne: "?a \<noteq> []" and len: "length ?a = length ?b" using assms(3) by auto
  have la: "length ?a = n - 1" by simp
  have ma: "sum_list ?a / real (length ?a) = mean_return p"
    using assms(1) by (simp add: mean_return_def sum_list_upt)
  have mb: "sum_list ?b / real (length ?a) = mean_return q"
    using assms(2) by (simp add: mean_return_def sum_list_upt)
  have z: "zip ?a ?b = map (\<lambda>t. (simple_return p t, simple_return q t)) [1..<n]"
    by (simp add: zip_map_map zip_same_conv_map)
  have s: "sum_list (map (\<lambda>(x, y). (x - mean_return p) * (y - mean_return q)) (zip ?a ?b)) =
           (\<Sum>t = 1..<n. (simple_return p t - mean_return p) * (simple_return q t - mean_return q))"
    unfolding z by (simp add: comp_def sum_list_upt)
  have "cov_pair (NaN # map Fin ?a) (NaN # map Fin ?b) =
        (if length ?a = 1 then NaN
         else Fin (sum_list (map (\<lambda>(x, y). (x - mean_return p) * (y - mean_return q)) (zip ?a ?b))
                   / (real (length ?a) - 1)))"
    using cov_pair_Fin [OF len ne] by (simp only: ma mb)
  also have "\<dots> = (if n = 2 then NaN else Fin (sample_covariance p q))"
    unfolding s la using assms by (auto simp add: sample_covariance_def)
  finally show ?thesis by (simp add: comp_def)
qed

text \<open>NaN absorbs: a table of fewer than two rows has no statistics.\<close>

lemma fsum_NaN: "NaN \<in> set xs \<Longrightarrow> fsum xs = NaN"
proof (induction xs)
  case Nil
  then show ?case by simp
next
  case (Cons x xs)
  show ?case
  proof (cases "x = NaN")
    case True
    then show ?thesis by simp
  next
    case False
    with Cons have "fsum xs = NaN" by simp
    then show ?thesis by (cases x) simp_all
  qed
qed

lemma fmul_NaN_right: "fmul x NaN = NaN"
  by (cases x) simp_all

lemma fadd_NaN_right: "fadd x NaN = NaN"
  by (cases x) simp_all

lemma fsub_NaN_right: "fsub x NaN = NaN"
  by (simp add: fsub_def fadd_NaN_right)

lemma pct_change_col_short:
  assumes "length c < 2"
  shows "pct_change_col c = map (\<lambda>_. NaN) c"
proof (cases c)
  case Nil
  then show ?thesis by (simp add: pct_change_col_def pad_def shift_def)
next
  case (Cons x xs)
  with assms have "xs = []" by simp
  with Cons show ?thesis
    by (simp add: pct_change_col_def pad_def shift_def fdiv_NaN_right fsub_NaN_left)
qed

lemma mean_col_all_NaN: "mean_col (map (\<lambda>_. NaN) c) = NaN"
  by (simp add: mean_col_def filter_map comp_def)

lemma finite_rows_all_NaN: "finite_rows (map (\<lambda>_. NaN) c) ys = []"
proof (induction c arbitrary: ys)
  case Nil
  then show ?case by simp
next
  case (Cons x xs)
  then show ?case by (cases ys) simp_all
qed

lemma cov_pair_all_NaN: "cov_pair (map (\<lambda>_. NaN) c) ys = NaN"
  by (simp add: cov_pair_def finite_rows_all_NaN)

lemma value_at_risks_NaN: "value_at_risks NaN = replicate 30 NaN"
  by (simp add: value_at_risks_def map_replicate_const)

lemma norm_ppf_scale_NaN: "norm_ppf ndtri q loc NaN = NaN"
  by (cases q) (simp_all add: norm_ppf_def)

lemma norm_ppf_scale_zero: "norm_ppf ndtri q loc (Fin 0) = NaN"
  by (cases q) (simp_all add: norm_ppf_def)

lemma np_dot_all_NaN:
  assumes "length w = length xs" and "xs \<noteq> []"
  shows "np_dot (map (\<lambda>_. NaN) xs) w = NaN" and "np_dot w (map (\<lambda>_. NaN) xs) = NaN"
proof -
  have "map2 fmul (map (\<lambda>_. NaN) xs) w = map (\<lambda>_. NaN) xs"
    using assms(1) [symmetric] by (induction xs w rule: list_induct2) simp_all
  moreover have "map2 fmul w (map (\<lambda>_. NaN) xs) = map (\<lambda>_. NaN) xs"
    using assms(1) by (induction w xs rule: list_induct2) (simp_all add: fmul_NaN_right)
  moreover have "NaN \<in> set (map (\<lambda>_. NaN) xs)" using assms(2) by (cases xs) simp_all
  ultimately show "np_dot (map (\<lambda>_. NaN) xs) w = NaN" and "np_dot w (map (\<lambda>_. NaN) xs) = NaN"
    by (simp_all add: np_dot_def fsum_NaN)
qed

lemma port_variance_all_NaN:
  assumes "length w = length d" and "d \<noteq> []"
  shows "port_variance w (map (\<lambda>_. map (\<lambda>_. NaN) d) d) = Inr NaN"
proof -
  let ?m = "map (\<lambda>_. map (\<lambda>_. NaN :: float64) d) d"
  have nc: "ncols ?m = length d"
    using assms(2) by (cases d) (simp_all add: ncols_def)
  have col: "np_dot w (map (\<lambda>row. row ! j) ?m) = NaN" if "j < length d" for j
  proof -
    have "map (\<lambda>row. row ! j) ?m = map (\<lambda>_. NaN) d"
      using that by (simp add: comp_def)
    then show ?thesis by (simp only: np_dot_all_NaN(2) [OF assms])
  qed
  have "map (\<lambda>j. np_dot w (map (\<lambda>row. row ! j) ?m)) [0..<length d] =
        map (\<lambda>_. NaN) [0..<length d]"
  proof (rule map_cong [OF refl])
    fix j assume "j \<in> set [0..<length d]"
    then have "j < length d" by simp
    then show "np_dot w (map (\<lambda>row. row ! j) ?m) = NaN" by (rule col)
  qed
  then have wc: "ndarray_dot_matrix w ?m = Inr (map (\<lambda>_. NaN) [0..<length d])"
    unfolding ndarray_dot_matrix_def nc using assms(1) by simp
  have "np_dot (map (\<lambda>_. NaN) [0..<length d]) w = NaN"
    using assms by (intro np_dot_all_NaN(1)) simp_all
  then show ?thesis
    unfolding port_variance_def wc using assms(1) by (simp add: ndarray_dot_def)
qed

lemma notebook_all_NaN:
  assumes "length weights = length d"
    and that: "mean_returns d0 = map (\<lambda>_. NaN) d"
      "cov_matrix d0 = map (\<lambda>_. map (\<lambda>_. NaN) d) d"
  shows "notebook ndtri0 d0 weights pv conf = Inr (NaN, replicate 30 NaN)"
proof (cases "d = []")
  case True
  with assms(1) have w: "weights = []" by simp
  have scale: "fmul pv (Fin 0) = Fin 0 \<or> fmul pv (Fin 0) = NaN"
    by (cases pv) (simp_all add: signed_inf_def)
  then have "norm_ppf ndtri0 conf (fmul (fadd (Fin 1) (Fin 0)) pv) (fmul pv (Fin 0)) = NaN"
    by (auto simp add: norm_ppf_scale_NaN norm_ppf_scale_zero)
  then show ?thesis
    using True w that
    by (simp add: notebook_def portfolio_aggregator_def series_dot_def np_dot_def
        port_variance_def ndarray_dot_matrix_def ndarray_dot_def ncols_def
        value_at_risk_def percent_point_def fsub_NaN_right value_at_risks_NaN)
next
  case False
  have sd: "series_dot (map (\<lambda>_. NaN) d) weights = Inr NaN"
    using assms(1) False by (simp add: series_dot_def np_dot_all_NaN(1))
  have pv: "port_variance weights (map (\<lambda>_. map (\<lambda>_. NaN) d) d) = Inr NaN"
    using assms(1) False by (rule port_variance_all_NaN)
  show ?thesis
    using that
    by (simp add: notebook_def portfolio_aggregator_def sd pv fmul_NaN_right
        value_at_risk_def percent_point_def norm_ppf_scale_NaN fsub_NaN_right
        value_at_risks_NaN)
qed

text \<open>Forward fill across a gap, and rows that drop out of a pair of columns.\<close>

lemma ffill_append:
  "ffill prev (xs @ ys) = ffill prev xs @ ffill (last (prev # ffill prev xs)) ys"
  by (induction xs arbitrary: prev) simp_all

lemma ffill_gap:
  "ffill prev (Fin a # replicate k NaN @ post) =
   replicate (Suc k) (Fin a) @ ffill (Fin a) post"
proof -
  have "ffill (Fin a) (replicate k NaN @ ys) = replicate k (Fin a) @ ffill (Fin a) ys" for ys
    by (induction k) simp_all
  then show ?thesis by simp
qed

lemma pad_gap:
  "\<exists>filled. length filled = length pre \<and>
     pad (pre @ Fin a # replicate k NaN @ post) =
     filled @ replicate (Suc k) (Fin a) @ ffill (Fin a) post"
proof -
  have "pad (pre @ Fin a # replicate k NaN @ post) =
        ffill NaN pre @ replicate (Suc k) (Fin a) @ ffill (Fin a) post"
    unfolding pad_def ffill_append ffill_gap ..
  then show ?thesis using length_ffill by blast
qed

lemma filter_missing_as_nan:
  "filter (\<lambda>x. x \<noteq> NaN) (map missing_as_nan c) = map Fin (observed c)"
  by (induction c rule: observed.induct) simp_all

lemma mean_col_missing:
  "mean_col (map missing_as_nan c) =
   (if observed c = [] then NaN
    else Fin (sum_list (observed c) / real (length (observed c))))"
  by (simp add: mean_col_def filter_missing_as_nan fsum_Fin)

lemma finite_rows_missing:
  "finite_rows (map missing_as_nan c) (map missing_as_nan d) = complete_rows c d"
  by (induction c d rule: complete_rows.induct) simp_all

lemma cov_pair_missing:
  "cov_pair (map missing_as_nan c) (map missing_as_nan d) =
   (if length (complete_rows c d) < 2 then NaN
    else Fin (pairs_covariance (complete_rows c d)))"
proof -
  let ?n = "length (complete_rows c d)"
  consider "?n = 0" | "?n = 1" | "2 \<le> ?n" by linarith
  then show ?thesis
  proof cases
    case 1
    then show ?thesis by (simp add: cov_pair_def finite_rows_missing)
  next
    case 2
    then show ?thesis by (simp add: cov_pair_def finite_rows_missing Let_def)
  next
    case 3
    then have "real ?n - 1 \<noteq> 0" and "\<not> ?n < 1" and "\<not> ?n < 2" by auto
    then show ?thesis
      unfolding cov_pair_def finite_rows_missing pairs_covariance_def Let_def by simp
  qed
qed

lemma nth_replicate_append: "i < n \<Longrightarrow> (replicate n x @ ys) ! i = x"
  by (simp add: nth_append)

lemma nth_after_replicate: "(replicate n x @ y # ys) ! n = y"
  using nth_append_length [of "replicate n x" y ys] by simp

text \<open>The two price columns of the evaluated example.\<close>

lemma upt_1_3: "[Suc 0..<3] = [Suc 0, Suc (Suc 0)]"
  by (simp add: upt_rec [of "Suc 0"] upt_rec [of "Suc (Suc 0)"])

lemma example_simple_returns: "simple_return [100, 110, 121] (Suc 0) = 1/10"
  "simple_return [100, 110, 121] (Suc (Suc 0)) = 1/10"
  "simple_return [50, 50, 100] (Suc 0) = 0" "simple_return [50, 50, 100] (Suc (Suc 0)) = 1"
  by (simp_all add: simple_return_def)

lemma example_mean_returns: "mean_return [100, 110, 121] = 1/10" "mean_return [50, 50, 100] = 1/2"
  by (simp_all add: mean_return_def sum_list_upt [symmetric] upt_rec [of 1] upt_rec [of 2] example_simple_returns)

lemma example_sample_covariances: "sample_covariance [50, 50, 100] [50, 50, 100] = 1/2"
  "sample_covariance [100, 110, 121] [50, 50, 100] = 0"
  "sample_covariance [50, 50, 100] [100, 110, 121] = 0"
  "sample_covariance [100, 110, 121] [100, 110, 121] = 0"
  by (simp_all add: sample_covariance_def sum_list_upt [symmetric] upt_rec [of 1] upt_rec [of 2] example_simple_returns example_mean_returns)

subsection \<open>VaR Estimator\<close>

text \<open>
  C1. For every expected investment value \<open>\<mu>\<close>, investment standard deviation
  \<open>\<sigma> > 0\<close>, confidence level \<open>\<alpha>\<close> in \<open>(0,1)\<close> and notional, the estimator returns
  \<open>notional - x\<close> where \<open>x\<close>, the percent point, is the \<open>\<alpha>\<close>-quantile of the
  distribution with mean \<open>\<mu>\<close> and standard deviation \<open>\<sigma>\<close>: the one value at which
  the distribution function \<open>y \<mapsto> cdf ((y - \<mu>) / \<sigma>)\<close> is \<open>\<alpha>\<close>. Here \<open>cdf\<close> is the
  standard distribution function that \<open>ndtri\<close> inverts.
\<close>

theorem C1_var_is_notional_minus_quantile:
  assumes "quantile_function cdf ndtri"
    and "0 < \<sigma>" and "0 < \<alpha>" and "\<alpha> < 1"
  shows "\<exists>x. percent_point ndtri (Fin \<alpha>) (Fin \<mu>) (Fin \<sigma>) = Fin x \<and>
             cdf ((x - \<mu>) / \<sigma>) = \<alpha> \<and>
             (\<forall>y. cdf ((y - \<mu>) / \<sigma>) = \<alpha> \<longrightarrow> y = x) \<and>
             value_at_risk ndtri (Fin notional) (Fin \<alpha>) (Fin \<mu>) (Fin \<sigma>) = Fin (notional - x)"
proof -
  define x where "x = ndtri \<alpha> * \<sigma> + \<mu>"
  have pp: "percent_point ndtri (Fin \<alpha>) (Fin \<mu>) (Fin \<sigma>) = Fin x"
    using assms(2-4) by (simp add: percent_point_def norm_ppf_def x_def)
  have std: "(x - \<mu>) / \<sigma> = ndtri \<alpha>"
    using assms(2) by (simp add: x_def)
  have q: "cdf (ndtri \<alpha>) = \<alpha>"
    using assms(1,3,4) by (simp add: quantile_function_def)
  have inj: "inj cdf"
    using assms(1) by (simp add: quantile_function_def strict_mono_imp_inj_on)
  have uniq: "y = x" if "cdf ((y - \<mu>) / \<sigma>) = \<alpha>" for y
  proof -
    from that q std have "cdf ((y - \<mu>) / \<sigma>) = cdf ((x - \<mu>) / \<sigma>)" by simp
    with inj have "(y - \<mu>) / \<sigma> = (x - \<mu>) / \<sigma>" by (simp add: inj_eq)
    with assms(2) show ?thesis by simp
  qed
  have var: "value_at_risk ndtri (Fin notional) (Fin \<alpha>) (Fin \<mu>) (Fin \<sigma>) = Fin (notional - x)"
    by (simp add: value_at_risk_def pp fsub_def)
  show ?thesis using pp std q uniq var by auto
qed

theorem C1_var_is_notional_minus_quantile_witness:
  "percent_point logit (Fin (1/2)) (Fin 1001) (Fin 14) = Fin 1001 \<and>
   logistic_cdf ((1001 - 1001) / 14) = 1 / 2 \<and>
   value_at_risk logit (Fin 1000) (Fin (1/2)) (Fin 1001) (Fin 14) = Fin (- 1)"
proof -
  have h: "(0::real) < 14" "(0::real) < 1/2" "(1/2::real) < 1" by simp_all
  from C1_var_is_notional_minus_quantile [OF logistic_quantile h, of 1001 1000]
  obtain x where x: "percent_point logit (Fin (1/2)) (Fin 1001) (Fin 14) = Fin x"
    "logistic_cdf ((x - 1001) / 14) = 1 / 2"
    "value_at_risk logit (Fin 1000) (Fin (1/2)) (Fin 1001) (Fin 14) = Fin (1000 - x)"
    by blast
  have "percent_point logit (Fin (1/2)) (Fin 1001) (Fin 14) = Fin 1001"
    by (simp add: percent_point_def norm_ppf_def logit_half)
  with x(1) have "x = 1001" by simp
  with x show ?thesis by simp
qed

text \<open>
  C7. For fixed \<open>\<mu>\<close>, \<open>\<sigma> > 0\<close> and notional the one-day VaR is strictly antitone in
  the confidence level: for \<open>\<alpha>2 < \<alpha>1\<close>, both in \<open>(0,1)\<close>, the VaR at \<open>\<alpha>2\<close> is
  larger than the VaR at \<open>\<alpha>1\<close>.
\<close>

theorem C7_var_antitone_in_confidence:
  assumes "quantile_function cdf ndtri"
    and "0 < \<sigma>"
    and "0 < \<alpha>2" and "\<alpha>2 < \<alpha>1" and "\<alpha>1 < 1"
  shows "\<exists>v1 v2. value_at_risk ndtri (Fin notional) (Fin \<alpha>1) (Fin \<mu>) (Fin \<sigma>) = Fin v1 \<and>
                 value_at_risk ndtri (Fin notional) (Fin \<alpha>2) (Fin \<mu>) (Fin \<sigma>) = Fin v2 \<and>
                 v1 < v2"
proof -
  have a1: "0 < \<alpha>1" and a2: "\<alpha>2 < 1" using assms(3-5) by simp_all
  have q1: "cdf (ndtri \<alpha>1) = \<alpha>1" and q2: "cdf (ndtri \<alpha>2) = \<alpha>2"
    using assms(1,3,5) a1 a2 by (simp_all add: quantile_function_def)
  have sm: "strict_mono cdf" using assms(1) by (simp add: quantile_function_def)
  have "cdf (ndtri \<alpha>2) < cdf (ndtri \<alpha>1)" using q1 q2 assms(4) by simp
  with sm have less: "ndtri \<alpha>2 < ndtri \<alpha>1" by (simp add: strict_mono_less)
  have v1: "value_at_risk ndtri (Fin notional) (Fin \<alpha>1) (Fin \<mu>) (Fin \<sigma>)
      = Fin (notional - (ndtri \<alpha>1 * \<sigma> + \<mu>))"
    using assms(2,5) a1 by (simp add: value_at_risk_def percent_point_def norm_ppf_def fsub_def)
  have v2: "value_at_risk ndtri (Fin notional) (Fin \<alpha>2) (Fin \<mu>) (Fin \<sigma>)
      = Fin (notional - (ndtri \<alpha>2 * \<sigma> + \<mu>))"
    using assms(2,3) a2 by (simp add: value_at_risk_def percent_point_def norm_ppf_def fsub_def)
  have "ndtri \<alpha>2 * \<sigma> < ndtri \<alpha>1 * \<sigma>" using less assms(2) by simp
  then have "notional - (ndtri \<alpha>1 * \<sigma> + \<mu>) < notional - (ndtri \<alpha>2 * \<sigma> + \<mu>)" by simp
  with v1 v2 show ?thesis by blast
qed

theorem C7_var_antitone_in_confidence_witness:
  "\<exists>v1 v2. value_at_risk logit (Fin 1000) (Fin (1/2)) (Fin 1001) (Fin 14) = Fin v1 \<and>
           value_at_risk logit (Fin 1000) (Fin (1/20)) (Fin 1001) (Fin 14) = Fin v2 \<and>
           v1 < v2"
proof -
  have h: "(0::real) < 14" "(0::real) < 1/20" "(1/20::real) < 1/2" "(1/2::real) < 1"
    by simp_all
  show ?thesis
    by (rule C7_var_antitone_in_confidence [OF logistic_quantile h])
qed

text \<open>
  C5, as the specification states it, fails: at confidence 1.2 the estimator raises
  nothing and returns NaN.
\<close>

theorem C5_counterexample:
  "value_at_risk logit (Fin 1000) (Fin (6/5)) (Fin 1001) (Fin 14) = NaN"
  by (simp add: value_at_risk_def percent_point_def norm_ppf_def fsub_def)

text \<open>
  C5, amended. For every confidence level \<open>\<alpha>\<close> outside the open interval \<open>(0,1)\<close>
  the estimator raises no error and returns a special value: NaN when \<open>\<alpha> < 0\<close> or
  \<open>\<alpha> > 1\<close>, and at the two end points the infinite end of the support turned into a
  loss, \<open>+inf\<close> at \<open>\<alpha> = 0\<close> and \<open>-inf\<close> at \<open>\<alpha> = 1\<close> (NaN there too unless
  \<open>\<sigma> > 0\<close>).
\<close>

theorem C5_confidence_outside_unit_interval:
  assumes "\<alpha> \<le> 0 \<or> 1 \<le> \<alpha>"
  shows "value_at_risk ndtri (Fin notional) (Fin \<alpha>) (Fin \<mu>) (Fin \<sigma>) =
         (if 0 < \<sigma> \<and> \<alpha> = 0 then PInf
          else if 0 < \<sigma> \<and> \<alpha> = 1 then NInf
          else NaN)"
  using assms
  by (auto simp add: value_at_risk_def percent_point_def norm_ppf_def fsub_def signed_inf_def)

theorem C5_confidence_outside_unit_interval_witness:
  "value_at_risk logit (Fin 1000) (Fin 2) (Fin 1001) (Fin 14) = NaN \<and>
   value_at_risk logit (Fin 1000) (Fin 0) (Fin 1001) (Fin 14) = PInf"
proof -
  have "(2::real) \<le> 0 \<or> 1 \<le> (2::real)" and "(0::real) \<le> 0 \<or> 1 \<le> (0::real)" by simp_all
  then show ?thesis
    using C5_confidence_outside_unit_interval [of 2 logit 1000 1001 14]
      C5_confidence_outside_unit_interval [of 0 logit 1000 1001 14]
    by simp
qed

subsection \<open>Horizon Scaler\<close>

text \<open>
  C2. For every one-day VaR value the Horizon Scaler returns a sequence of exactly
  30 entries, one per horizon day 1 to 30 in order, and the entry of day \<open>d\<close> is the
  one-day value times the square root of \<open>d\<close>: the float product in general, and the
  real product \<open>v * sqrt d\<close> when the one-day value is the finite number \<open>v\<close>.
\<close>

theorem C2_horizon_scaling:
  "length (value_at_risks x) = 30 \<and>
   (\<forall>d. 1 \<le> d \<and> d \<le> 30 \<longrightarrow>
      value_at_risks x ! (d - 1) = fmul x (Fin (sqrt (real d))) \<and>
      value_at_risks (Fin v) ! (d - 1) = Fin (v * sqrt (real d)))"
proof -
  have len: "length (value_at_risks x) = 30"
    by (simp add: value_at_risks_def)
  have entry: "value_at_risks y ! (d - 1) = fmul y (Fin (sqrt (real d)))"
    if "1 \<le> d" "d \<le> 30" for y and d :: nat
  proof -
    have "d - 1 < length [1..<31::nat]" using that by simp
    then have "value_at_risks y ! (d - 1) =
        fmul y (fsqrt (Fin (real ([1..<31] ! (d - 1)))))"
      unfolding value_at_risks_def by (rule nth_map)
    moreover have "[1..<31] ! (d - 1) = d" using that by simp
    ultimately show ?thesis by simp
  qed
  show ?thesis using len entry by simp
qed

theorem C2_horizon_scaling_witness:
  "length (value_at_risks (Fin 10)) = 30 \<and> value_at_risks (Fin 10) ! 3 = Fin 20"
proof -
  have "1 \<le> (4::nat) \<and> (4::nat) \<le> 30" by simp
  with C2_horizon_scaling [of "Fin 10" 10]
  have "value_at_risks (Fin 10) ! (4 - 1) = Fin (10 * sqrt (real (4::nat)))"
    by blast
  moreover have "sqrt (real (4::nat)) = 2" by simp
  ultimately show ?thesis using C2_horizon_scaling [of "Fin 10" 10] by simp
qed

subsection \<open>Return Statistics\<close>

text \<open>
  C4, as the specification states it, fails at exactly two price rows: there is one
  return per column, the divisor \<open>N - 1\<close> of the sample covariance is 0, and every
  covariance entry is NaN, not a number, while returns and mean returns are as
  claimed. The sample covariance of the statement is a real number, so no entry
  equals it.
\<close>

theorem C4_counterexample:
  "returns [[Fin 100, Fin 110], [Fin 50, Fin 40]] = [[NaN, Fin (1/10)], [NaN, Fin (- 1/5)]] \<and>
   mean_returns [[Fin 100, Fin 110], [Fin 50, Fin 40]] = [Fin (1/10), Fin (- 1/5)] \<and>
   cov_matrix [[Fin 100, Fin 110], [Fin 50, Fin 40]] = [[NaN, NaN], [NaN, NaN]] \<and>
   cov_matrix [[Fin 100, Fin 110], [Fin 50, Fin 40]] \<noteq>
     [[Fin (sample_covariance [100, 110] [100, 110]), Fin (sample_covariance [100, 110] [50, 40])],
      [Fin (sample_covariance [50, 40] [100, 110]), Fin (sample_covariance [50, 40] [50, 40])]]"
proof -
  have r: "returns [[Fin 100, Fin 110], [Fin 50, Fin 40]] =
      [[NaN, Fin (1/10)], [NaN, Fin (- 1/5)]]"
    by (simp add: returns_def pct_change_def pct_change_col_def pad_def shift_def fsub_def)
  have m: "mean_returns [[Fin 100, Fin 110], [Fin 50, Fin 40]] = [Fin (1/10), Fin (- 1/5)]"
    by (simp add: mean_returns_def r mean_df_def mean_col_def)
  have c: "cov_matrix [[Fin 100, Fin 110], [Fin 50, Fin 40]] = [[NaN, NaN], [NaN, NaN]]"
    by (simp add: cov_matrix_def r cov_def cov_pair_def)
  show ?thesis using r m by (simp add: c)
qed

text \<open>
  C4, amended. For every price table of \<open>n \<ge> 2\<close> rows with all prices positive, the
  return of row \<open>t \<ge> 1\<close> of a column is \<open>p[t] / p[t-1] - 1\<close> and the first row has no
  return (NaN, the missing entry), and the mean return of a column is the arithmetic
  mean of its \<open>n - 1\<close> returns. With at least 3 rows each covariance is the sample
  covariance of the two return columns with the denominator \<open>N - 1\<close>, \<open>N = n - 1\<close>
  the number of returns; with exactly 2 rows every covariance is NaN.
\<close>

theorem C4_return_statistics:
  assumes "\<forall>c\<in>set prices. length c = n" and "2 \<le> n"
    and "\<forall>c\<in>set prices. \<forall>x\<in>set c. 0 < x"
  shows "returns (map (map Fin) prices) =
           map (\<lambda>c. NaN # map (\<lambda>t. Fin (simple_return c t)) [1..<n]) prices \<and>
         mean_returns (map (map Fin) prices) = map (\<lambda>c. Fin (mean_return c)) prices \<and>
         cov_matrix (map (map Fin) prices) =
           map (\<lambda>p. map (\<lambda>q. if n = 2 then NaN else Fin (sample_covariance p q)) prices) prices"
proof -
  let ?r = "\<lambda>c. NaN # map (\<lambda>t. Fin (simple_return c t)) [1..<n]"
  have col: "pct_change_col (map Fin c) = ?r c" if "c \<in> set prices" for c
  proof -
    have len: "length c = n" using assms(1) that by simp
    then have "c \<noteq> []" using assms(2) by auto
    moreover have "\<forall>x\<in>set c. x \<noteq> 0" using assms(3) that by fastforce
    ultimately show ?thesis using pct_change_col_Fin [of c] len by simp
  qed
  have r: "returns (map (map Fin) prices) = map ?r prices"
    by (simp add: returns_def pct_change_def col)
  have mean: "mean_col (?r c) = Fin (mean_return c)" if "c \<in> set prices" for c
  proof -
    have len: "length c = n" using assms(1) that by simp
    then show ?thesis using mean_col_returns [of c] assms(2) by simp
  qed
  have m: "mean_returns (map (map Fin) prices) = map (\<lambda>c. Fin (mean_return c)) prices"
  proof -
    have "map mean_col (map ?r prices) = map (\<lambda>c. Fin (mean_return c)) prices"
      unfolding map_map by (rule map_cong [OF refl]) (simp only: comp_def mean)
    then show ?thesis unfolding mean_returns_def r mean_df_def .
  qed
  have pair: "cov_pair (?r p) (?r q) = (if n = 2 then NaN else Fin (sample_covariance p q))"
    if "p \<in> set prices" "q \<in> set prices" for p q
    using that assms(1,2) by (intro cov_pair_returns) simp_all
  have c: "cov_matrix (map (map Fin) prices) =
           map (\<lambda>p. map (\<lambda>q. if n = 2 then NaN else Fin (sample_covariance p q)) prices) prices"
  proof -
    have "map (\<lambda>x. map (\<lambda>y. cov_pair x y) (map ?r prices)) (map ?r prices) =
          map (\<lambda>p. map (\<lambda>q. if n = 2 then NaN else Fin (sample_covariance p q)) prices) prices"
      unfolding map_map comp_def
    proof (rule map_cong [OF refl])
      fix p assume p: "p \<in> set prices"
      show "map (\<lambda>y. cov_pair (?r p) (?r y)) prices =
            map (\<lambda>q. if n = 2 then NaN else Fin (sample_covariance p q)) prices"
        by (rule map_cong [OF refl]) (rule pair [OF p])
    qed
    then show ?thesis unfolding cov_matrix_def r cov_def .
  qed
  show ?thesis using r m c by blast
qed

theorem C4_return_statistics_witness:
  "returns [[Fin 100, Fin 110, Fin 121], [Fin 50, Fin 50, Fin 100]] =
     [[NaN, Fin (1/10), Fin (1/10)], [NaN, Fin 0, Fin 1]] \<and>
   mean_returns [[Fin 100, Fin 110, Fin 121], [Fin 50, Fin 50, Fin 100]] =
     [Fin (1/10), Fin (1/2)] \<and>
   cov_matrix [[Fin 100, Fin 110, Fin 121], [Fin 50, Fin 50, Fin 100]] =
     [[Fin 0, Fin 0], [Fin 0, Fin (1/2)]]"
proof -
  let ?prices = "[[100, 110, 121], [50, 50, 100 :: real]]"
  have h: "\<forall>c\<in>set ?prices. length c = 3" "(2::nat) \<le> 3"
    "\<forall>c\<in>set ?prices. \<forall>x\<in>set c. 0 < x"
    by simp_all
  show ?thesis
    using C4_return_statistics [OF h]
    by (simp add: example_simple_returns example_mean_returns example_sample_covariances upt_1_3)
qed

text \<open>
  C6, as the specification states it, fails: on a price table of one row nothing is
  raised, every statistic is NaN and the notebook runs to its end.
\<close>

theorem C6_counterexample:
  "returns [[Fin 100]] = [[NaN]] \<and>
   mean_returns [[Fin 100]] = [NaN] \<and>
   cov_matrix [[Fin 100]] = [[NaN]] \<and>
   notebook logit [[Fin 100]] [Fin 1] (Fin 1000) (Fin (1/20)) = Inr (NaN, replicate 30 NaN)"
proof -
  have r: "returns [[Fin 100]] = [[NaN]]"
    by (simp add: returns_def pct_change_def pct_change_col_def pad_def shift_def fsub_def)
  have m: "mean_returns [[Fin 100]] = [NaN]"
    by (simp add: mean_returns_def r mean_df_def mean_col_def)
  have c: "cov_matrix [[Fin 100]] = [[NaN]]"
    by (simp add: cov_matrix_def r cov_def cov_pair_def)
  have n: "notebook logit [[Fin 100]] [Fin 1] (Fin 1000) (Fin (1/20)) = Inr (NaN, replicate 30 NaN)"
    by (simp add: notebook_def portfolio_aggregator_def m c series_dot_def np_dot_def
        port_variance_def ndarray_dot_matrix_def ndarray_dot_def ncols_def
        value_at_risk_def percent_point_def norm_ppf_def fsub_def value_at_risks_NaN)
  show ?thesis using r m c n by blast
qed

text \<open>
  C6, amended. For every price table with fewer than 2 rows the Return Statistics
  raise no error: every return, every mean return and every covariance is NaN. The
  notebook then proceeds: when there is one weight per column it ends with a one-day
  VaR of NaN and thirty scaled values of NaN, and otherwise it stops at the first
  dot product, whose shape mismatch is the only failure.
\<close>

theorem C6_short_history_gives_nan:
  assumes "\<forall>c\<in>set data. length c < 2"
  shows "returns data = map (map (\<lambda>_. NaN)) data \<and>
         mean_returns data = map (\<lambda>_. NaN) data \<and>
         cov_matrix data = map (\<lambda>_. map (\<lambda>_. NaN) data) data \<and>
         notebook ndtri data weights portfolio_value confidence =
           (if length weights = length data then Inr (NaN, replicate 30 NaN)
            else Inl DotShapeMismatch)"
proof -
  have r: "returns data = map (map (\<lambda>_. NaN)) data"
    unfolding returns_def pct_change_def
    by (rule map_cong [OF refl]) (simp add: assms pct_change_col_short)
  have m: "mean_returns data = map (\<lambda>_. NaN) data"
    unfolding mean_returns_def r mean_df_def by (simp add: mean_col_all_NaN comp_def)
  have c: "cov_matrix data = map (\<lambda>_. map (\<lambda>_. NaN) data) data"
    unfolding cov_matrix_def r cov_def by (simp add: cov_pair_all_NaN comp_def)
  have n: "notebook ndtri data weights portfolio_value confidence =
           (if length weights = length data then Inr (NaN, replicate 30 NaN)
            else Inl DotShapeMismatch)"
  proof (cases "length weights = length data")
    case True
    then show ?thesis using notebook_all_NaN [OF True m c] by simp
  next
    case False
    then have "series_dot (mean_returns data) weights = Inl DotShapeMismatch"
      by (auto simp add: series_dot_def m)
    then show ?thesis using False by (simp add: notebook_def portfolio_aggregator_def)
  qed
  show ?thesis using r m c n by blast
qed

theorem C6_short_history_gives_nan_witness:
  "returns [[Fin 100], [Fin 50]] = [[NaN], [NaN]] \<and>
   mean_returns [[Fin 100], [Fin 50]] = [NaN, NaN] \<and>
   cov_matrix [[Fin 100], [Fin 50]] = [[NaN, NaN], [NaN, NaN]] \<and>
   notebook logit [[Fin 100], [Fin 50]] [Fin (1/2), Fin (1/2)] (Fin 1000) (Fin (1/20)) =
     Inr (NaN, replicate 30 NaN)"
proof -
  have "\<forall>c\<in>set [[Fin 100], [Fin 50]]. length c < 2" by simp
  from C6_short_history_gives_nan [OF this, of logit "[Fin (1/2), Fin (1/2)]" "Fin 1000" "Fin (1/20)"]
  show ?thesis by simp
qed

text \<open>
  C10. A price column with missing (NaN) entries in interior rows, here \<open>k\<close> of them
  right after the observed price \<open>a\<close>, does not make the return computation fail or
  lose a row, and the gap does not propagate NaN: each missing price counts as the
  last observed price \<open>a\<close>, so the return of every gap row is 0, and when the row
  after the gap holds an observed price \<open>b\<close> its return is \<open>b / a - 1\<close>. Downstream,
  on columns whose entries are numbers or NaN, the mean of a column is the arithmetic
  mean of its entries that are not NaN, and the covariance of two columns is the
  sample covariance, with denominator one less than their number, of the rows where
  neither entry is NaN. Neither call has a failing case: the mean of a column with no
  number at all, and the covariance over fewer than two such rows, are NaN.
\<close>

theorem C10_missing_prices_forward_filled:
  assumes "a \<noteq> 0"
    and "col = pre @ Fin a # replicate k NaN @ post"
  shows "length (pct_change_col col) = length col \<and>
         (\<forall>i. 1 \<le> i \<and> i \<le> k \<longrightarrow> pct_change_col col ! (length pre + i) = Fin 0) \<and>
         (\<forall>b rest. post = Fin b # rest \<longrightarrow>
            pct_change_col col ! (length pre + k + 1) = Fin (b / a - 1)) \<and>
         mean_col (map missing_as_nan c) =
           (if observed c = [] then NaN
            else Fin (sum_list (observed c) / real (length (observed c)))) \<and>
         cov_pair (map missing_as_nan c) (map missing_as_nan d) =
           (if length (complete_rows c d) < 2 then NaN
            else Fin (pairs_covariance (complete_rows c d)))"
proof -
  from pad_gap [of pre a k post] obtain filled
    where len: "length filled = length pre"
      and pad: "pad col = filled @ replicate (Suc k) (Fin a) @ ffill (Fin a) post"
    unfolding assms(2) by blast
  have lcol: "length col = length pre + k + 1 + length post"
    by (simp add: assms(2))
  have at: "pad col ! (length pre + i) = Fin a" if "i \<le> k" for i
  proof -
    have "pad col ! (length filled + i) = (replicate (Suc k) (Fin a) @ ffill (Fin a) post) ! i"
      unfolding pad by (rule nth_append_length_plus)
    also have "\<dots> = Fin a" using that by (intro nth_replicate_append) simp
    finally show ?thesis by (simp add: len)
  qed
  have lpad: "length (pad col) = length col" by (simp add: pad_def length_ffill)
  have step: "pct_change_col col ! t =
      fsub (fdiv (pad col ! t) (pad col ! (t - 1))) (Fin 1)"
    if "0 < t" "t < length col" for t
    using that by (simp add: pct_change_col_nth shift_nth lpad)
  have gap: "pct_change_col col ! (length pre + i) = Fin 0" if "1 \<le> i" "i \<le> k" for i
  proof -
    have "pct_change_col col ! (length pre + i) =
          fsub (fdiv (pad col ! (length pre + i)) (pad col ! (length pre + i - 1))) (Fin 1)"
      using that lcol by (intro step) simp_all
    moreover have "pad col ! (length pre + i - 1) = Fin a"
      using at [of "i - 1"] that by simp
    ultimately show ?thesis using at [OF that(2)] assms(1) by (simp add: fsub_Fin)
  qed
  have nxt: "pct_change_col col ! (length pre + k + 1) = Fin (b / a - 1)"
    if post: "post = Fin b # rest" for b rest
  proof -
    have "pad col ! (length filled + Suc k) =
          (replicate (Suc k) (Fin a) @ Fin b # ffill (Fin b) rest) ! Suc k"
      unfolding pad post by (simp only: ffill.simps float64.distinct if_False nth_append_length_plus)
    also have "\<dots> = Fin b" by (rule nth_after_replicate)
    finally have next_obs: "pad col ! (length pre + k + 1) = Fin b" by (simp add: len)
    have "pct_change_col col ! (length pre + k + 1) =
          fsub (fdiv (pad col ! (length pre + k + 1)) (pad col ! (length pre + k + 1 - 1))) (Fin 1)"
      using lcol post by (intro step) simp_all
    moreover have "pad col ! (length pre + k + 1 - 1) = Fin a"
      using at [of k] by simp
    ultimately show ?thesis using next_obs assms(1) by (simp add: fsub_Fin)
  qed
  show ?thesis
    using length_pct_change_col [of col] gap nxt mean_col_missing [of c]
      cov_pair_missing [of c d]
    by blast
qed

theorem C10_missing_prices_forward_filled_witness:
  "length (pct_change_col [Fin 90, Fin 100, NaN, NaN, Fin 110, Fin 121]) = 6 \<and>
   pct_change_col [Fin 90, Fin 100, NaN, NaN, Fin 110, Fin 121] ! 2 = Fin 0 \<and>
   pct_change_col [Fin 90, Fin 100, NaN, NaN, Fin 110, Fin 121] ! 3 = Fin 0 \<and>
   pct_change_col [Fin 90, Fin 100, NaN, NaN, Fin 110, Fin 121] ! 4 = Fin (1/10) \<and>
   mean_col [NaN, Fin 1, NaN, Fin 3] = Fin 2 \<and>
   cov_pair [NaN, Fin 1, NaN, Fin 3, Fin 5] [NaN, Fin 2, Fin 7, Fin 4, Fin 6] = Fin 4"
proof -
  let ?col = "[Fin 90, Fin 100, NaN, NaN, Fin 110, Fin 121]"
  let ?c = "[None, Some 1, None, Some 3 :: real option]"
  let ?x = "[None, Some 1, None, Some 3, Some 5 :: real option]"
  let ?y = "[None, Some 2, Some 7, Some 4, Some 6 :: real option]"
  have h: "(100::real) \<noteq> 0"
    "?col = [Fin 90] @ Fin 100 # replicate 2 NaN @ [Fin 110, Fin 121]"
    by (simp_all add: numeral_2_eq_2)
  note t = C10_missing_prices_forward_filled [OF h, of ?c]
  note u = C10_missing_prices_forward_filled [OF h, of ?x ?y]
  have e: "length [Fin 90 :: float64] + 1 = 2" "length [Fin 90 :: float64] + 2 = 3"
    "length [Fin 90 :: float64] + 2 + 1 = 4" "(110::real) / 100 - 1 = 1/10"
    by simp_all
  have len: "length (pct_change_col ?col) = 6"
    using t [THEN conjunct1] by simp
  have gap: "\<forall>i. 1 \<le> i \<and> i \<le> 2 \<longrightarrow>
      pct_change_col ?col ! (length [Fin 90 :: float64] + i) = Fin 0"
    by (rule t [THEN conjunct2, THEN conjunct1])
  have "pct_change_col ?col ! (length [Fin 90 :: float64] + 1) = Fin 0"
    and "pct_change_col ?col ! (length [Fin 90 :: float64] + 2) = Fin 0"
    using gap by simp_all
  then have g: "pct_change_col ?col ! 2 = Fin 0" "pct_change_col ?col ! 3 = Fin 0"
    by (simp_all only: e)
  have nxt: "pct_change_col ?col ! 4 = Fin (1/10)"
  proof -
    have "pct_change_col ?col ! (length [Fin 90 :: float64] + 2 + 1) = Fin (110 / 100 - 1)"
      using t [THEN conjunct2, THEN conjunct2, THEN conjunct1] by blast
    moreover have "(3::nat) + 1 = 4" by simp
    ultimately show ?thesis by (simp only: e)
  qed
  have mean: "mean_col [NaN, Fin 1, NaN, Fin 3] = Fin 2"
    using t [THEN conjunct2, THEN conjunct2, THEN conjunct2, THEN conjunct1] by simp
  have cov: "cov_pair [NaN, Fin 1, NaN, Fin 3, Fin 5] [NaN, Fin 2, Fin 7, Fin 4, Fin 6] = Fin 4"
    using u [THEN conjunct2, THEN conjunct2, THEN conjunct2, THEN conjunct2]
    by (simp add: pairs_covariance_def)
  show ?thesis using len g nxt mean cov by blast
qed

subsection \<open>Portfolio Aggregator\<close>



text \<open>
  C9. For a single asset (\<open>n = 1\<close>, weight vector \<open>[1.0]\<close>) with covariance matrix
  \<open>[[v]]\<close>, \<open>v \<ge> 0\<close>, the portfolio standard deviation is exactly \<open>sqrt v\<close>, the
  standard deviation of that asset's returns, whatever the mean return and the
  notional are.
\<close>

theorem C9_single_asset_stdev:
  assumes "0 \<le> v"
  shows "\<exists>p. portfolio_aggregator [m] [[Fin v]] [Fin 1] pv = Inr p \<and>
             port_stdev p = Fin (sqrt v)"
proof -
  have "port_variance [Fin 1] [[Fin v]] = Inr (Fin v)"
    by (simp add: port_variance_def ndarray_dot_matrix_def ndarray_dot_def np_dot_def ncols_def)
  then show ?thesis
    using assms by (simp add: portfolio_aggregator_def series_dot_def)
qed

theorem C9_single_asset_stdev_witness:
  "\<exists>p. portfolio_aggregator [Fin (1/100)] [[Fin 4]] [Fin 1] (Fin 1000) = Inr p \<and>
       port_stdev p = Fin 2"
proof -
  have "(0::real) \<le> 4" by simp
  from C9_single_asset_stdev [OF this, of "Fin (1/100)" "Fin 1000"]
  show ?thesis by simp
qed

end
